theory Spec2Isabelle
  imports Complex_Main "HOL-Library.Word" "HOL-Library.Sublist"
begin

section \<open>JavaScript values used by the dashboard\<close>

text \<open>
  A JavaScript string is a sequence of UTF-16 code units; \<open>length\<close> and
  \<open>substring\<close> count code units.  A code point outside the Basic Multilingual Plane
  is a pair of units: a high surrogate (D800..DBFF) followed by a low surrogate
  (DC00..DFFF).  Identifiers, messages and labels that the views only pass around are
  kept as \<open>string\<close>.
\<close>

type_synonym jsstring = "16 word list"

definition js :: "string \<Rightarrow> jsstring" where
  "js s = map (\<lambda>c. of_nat (of_char c)) s"

definition is_high_surrogate :: "16 word \<Rightarrow> bool" where
  "is_high_surrogate u = (0xD800 \<le> u \<and> u \<le> 0xDBFF)"

definition is_low_surrogate :: "16 word \<Rightarrow> bool" where
  "is_low_surrogate u = (0xDC00 \<le> u \<and> u \<le> 0xDFFF)"

text \<open>
  Cutting a text after its first \<open>k\<close> units falls inside a surrogate pair when unit
  \<open>k - 1\<close> is a high surrogate and unit \<open>k\<close> is the low surrogate that completes it.
\<close>

definition cuts_surrogate_pair :: "jsstring \<Rightarrow> nat \<Rightarrow> bool" where
  "cuts_surrogate_pair t k =
     (0 < k \<and> k < length t \<and> is_high_surrogate (t ! (k - 1)) \<and> is_low_surrogate (t ! k))"

text \<open>
  \<open>String.prototype.substring(start, end)\<close> on non-negative integer arguments: both
  indices are clamped to the length and swapped when \<open>start > end\<close>.
\<close>

definition substring :: "jsstring \<Rightarrow> nat \<Rightarrow> nat \<Rightarrow> jsstring" where
  "substring t start end =
     (let len = length t;
          s = min start len;
          e = min end len;
          lo = min s e;
          hi = max s e
      in take (hi - lo) (drop lo t))"

text \<open>
  \<open>a || b\<close> where \<open>a\<close> is an optional string: \<open>undefined\<close>, \<open>null\<close> and the
  empty string are falsy, so \<open>b\<close> is taken; any other string is the result.
\<close>

definition or_else :: "'a list option \<Rightarrow> 'a list \<Rightarrow> 'a list" where
  "or_else a b = (case a of None \<Rightarrow> b | Some t \<Rightarrow> (if t \<noteq> [] then t else b))"

section \<open>Configuration (config.js)\<close>

record Config =
  DEFAULT_PAGE_SIZE :: nat
  MAX_QUERY_PREVIEW_LENGTH :: nat

definition Config :: Config where
  "Config = \<lparr> DEFAULT_PAGE_SIZE = 10, MAX_QUERY_PREVIEW_LENGTH = 150 \<rparr>"

section \<open>The expensive-queries view (ExpensiveQueries.jsx)\<close>

text \<open>One row of the \<open>expensive-queries\<close> response, with the fields the view reads.\<close>

record ExpensiveQuery =
  job_id :: string
  total_slot_ms :: nat
  user_email :: string
  creation_time :: int
  project_id :: string
  duration_seconds :: "nat option"
  query_preview :: "jsstring option"
  query :: "jsstring option"

text \<open>The \<open>query-details\<close> response: the full SQL text and the schema text.\<close>

record QueryDetails =
  qd_query :: jsstring
  qd_ddl :: jsstring

text \<open>
  A rejected request: \<open>error.response?.data?.message\<close> when the server answered, and
  \<open>error.message\<close>.
\<close>

record HttpError =
  response_message :: "string option"
  message :: string

text \<open>
  The body of the \<open>expensive-queries\<close> response is either an object with a
  \<open>queries\<close> array and an optional \<open>debug\<close> text, or the array itself.
\<close>

datatype QueriesResponse =
    QueriesObject "string option" "ExpensiveQuery list"
  | QueriesArray "ExpensiveQuery list"

text \<open>What a handler does to the outside: requests sent, alerts shown, errors logged.\<close>

datatype effect =
    GetExpensiveQueries string string
  | PostQueryDetails string
  | PostOptimize jsstring jsstring
  | GetOrganizationOverview string
  | GetPulseData string string
  | GetOperationalDashboard string string string
  | ConsoleError string
  | Alert string

fun is_request :: "effect \<Rightarrow> bool" where
  "is_request (ConsoleError _) = False"
| "is_request (Alert _) = False"
| "is_request _ = True"

text \<open>The component's state: one field for each \<open>useState\<close>.\<close>

record EQState =
  expensiveQueries :: "ExpensiveQuery list"
  selectedJobId :: "string option"
  queryDetails :: "QueryDetails option"
  recommendations :: string
  debugInfo :: string
  isModalOpen :: bool
  loadingQueries :: bool
  loadingDetails :: bool
  loadingRecommendations :: bool

text \<open>
  Each handler is a function of the state it was rendered with and of the outcome of
  the request it awaits (\<open>Inl\<close> a rejection, \<open>Inr\<close> the response body); it returns the
  state after all its setters have run and the effects in the order issued.  The
  outcome is looked at only on the paths that send the request.
\<close>

definition fetchExpensiveQueries ::
  "string \<Rightarrow> string \<Rightarrow> HttpError + QueriesResponse \<Rightarrow> EQState \<Rightarrow> EQState \<times> effect list" where
  "fetchExpensiveQueries selectedProject selectedRegion outcome s =
     (let s1 = s\<lparr> loadingQueries := True \<rparr>;
          s2 = s1\<lparr> debugInfo := [] \<rparr>;
          req = GetExpensiveQueries selectedProject selectedRegion
      in case outcome of
           Inr body \<Rightarrow>
             (let s3 = (case body of
                          QueriesObject (Some d) _ \<Rightarrow> (if d \<noteq> [] then s2\<lparr> debugInfo := d \<rparr> else s2)
                        | _ \<Rightarrow> s2);
                  qs = (case body of QueriesObject _ qs \<Rightarrow> qs | QueriesArray qs \<Rightarrow> qs);
                  s4 = s3\<lparr> expensiveQueries := qs \<rparr>;
                  s5 = s4\<lparr> selectedJobId := None \<rparr>;
                  s6 = s5\<lparr> queryDetails := None \<rparr>;
                  s7 = s6\<lparr> recommendations := [] \<rparr>
              in (s7\<lparr> loadingQueries := False \<rparr>, [req]))
         | Inl err \<Rightarrow>
             (let msg = or_else (response_message err) (message err);
                  s3 = s2\<lparr> debugInfo := ''Error: '' @ msg \<rparr>;
                  s4 = s3\<lparr> expensiveQueries := [] \<rparr>
              in (s4\<lparr> loadingQueries := False \<rparr>,
                  [req, ConsoleError ''Error fetching queries:''])))"

definition handleQuerySelect ::
  "string \<Rightarrow> HttpError + QueryDetails \<Rightarrow> EQState \<Rightarrow> EQState \<times> effect list" where
  "handleQuerySelect jobId outcome s =
     (if selectedJobId s = Some jobId
      then (s\<lparr> selectedJobId := None, queryDetails := None, recommendations := [] \<rparr>, [])
      else
        (let s1 = s\<lparr> selectedJobId := Some jobId \<rparr>;
             s2 = s1\<lparr> recommendations := [] \<rparr>;
             s3 = s2\<lparr> loadingDetails := True \<rparr>;
             req = PostQueryDetails jobId
         in case outcome of
              Inr d \<Rightarrow>
                (s3\<lparr> queryDetails := Some d, loadingDetails := False \<rparr>, [req])
            | Inl err \<Rightarrow>
                (s3\<lparr> queryDetails := None, loadingDetails := False \<rparr>,
                 [req, ConsoleError ''Error fetching query details:'',
                  Alert ''Error fetching query details. Check the backend logs.''])))"

definition getOptimizationRecommendations ::
  "HttpError + string \<Rightarrow> EQState \<Rightarrow> EQState \<times> effect list" where
  "getOptimizationRecommendations outcome s =
     (case queryDetails s of
        None \<Rightarrow> (s, [])
      | Some d \<Rightarrow>
          (let s1 = s\<lparr> isModalOpen := True \<rparr>;
               s2 = s1\<lparr> loadingRecommendations := True \<rparr>;
               req = PostOptimize (qd_query d) (qd_ddl d)
           in case outcome of
                Inr r \<Rightarrow>
                  (s2\<lparr> recommendations := r, loadingRecommendations := False \<rparr>, [req])
              | Inl err \<Rightarrow>
                  (s2\<lparr> loadingRecommendations := False \<rparr>,
                   [req, ConsoleError ''Error getting recommendations:'',
                    Alert ''Error getting recommendations. Check the backend logs and your Gemini API key.''])))"

definition handleCloseModal :: "EQState \<Rightarrow> EQState" where
  "handleCloseModal s = s\<lparr> isModalOpen := False \<rparr>"

text \<open>
  The list is rendered with \<open>expensiveQueries.map((query, index) => ...)\<close>: the entry
  at index \<open>i\<close> is shown with rank \<open>#(i + 1)\<close>, in the order of the response.
\<close>

definition renderRanks :: "'a list \<Rightarrow> (nat \<times> 'a) list" where
  "renderRanks qs = map (\<lambda>(index, q). (index + 1, q)) (zip [0..<length qs] qs)"

text \<open>
  The preview cell:
  \<open>query.query_preview || query.query?.substring(0, Config.MAX_QUERY_PREVIEW_LENGTH)
   || 'No preview available'\<close>.
\<close>

definition queryPreviewText :: "Config \<Rightarrow> ExpensiveQuery \<Rightarrow> jsstring" where
  "queryPreviewText cfg q =
     or_else (query_preview q)
       (or_else (map_option (\<lambda>t. substring t 0 (MAX_QUERY_PREVIEW_LENGTH cfg)) (query q))
          (js ''No preview available''))"

text \<open>
  The frame a failed recommendation call would have if it touched nothing but the
  recommendation result and its loading flag.
\<close>

definition only_recommendation_and_loading_affected :: "EQState \<Rightarrow> EQState \<Rightarrow> bool" where
  "only_recommendation_and_loading_affected s s' =
     (s' = s\<lparr> recommendations := recommendations s',
              loadingRecommendations := loadingRecommendations s' \<rparr>)"

subsection \<open>Concrete inputs of the examples\<close>

definition held_details :: QueryDetails where
  "held_details = \<lparr> qd_query = js ''SELECT * FROM t'', qd_ddl = js ''CREATE TABLE t (x INT64)'' \<rparr>"

definition held_state :: EQState where
  "held_state = \<lparr> expensiveQueries = [], selectedJobId = Some ''job_42'',
       queryDetails = Some held_details,
       recommendations = [], debugInfo = [], isModalOpen = False,
       loadingQueries = False, loadingDetails = False, loadingRecommendations = False \<rparr>"

definition network_error :: HttpError where
  "network_error = \<lparr> response_message = None, message = ''Network Error'' \<rparr>"

text \<open>149 letters \<open>a\<close> followed by U+1F600, which UTF-16 encodes as D83D DE00.\<close>

definition surrogate_text :: jsstring where
  "surrogate_text = replicate 149 0x61 @ [0xD83D, 0xDE00]"

text \<open>A row that carries the full query text and no server-side preview.\<close>

definition fallback_row :: "jsstring \<Rightarrow> ExpensiveQuery" where
  "fallback_row t = \<lparr> job_id = ''job_42'', total_slot_ms = 1000, user_email = ''a@example.com'',
       creation_time = 0, project_id = ''analytics-1'', duration_seconds = None,
       query_preview = None, query = Some t \<rparr>"

section \<open>The shared context (AppContext.jsx)\<close>

text \<open>
  What \<open>useContext\<close> can return: \<open>undefined\<close>, the default of a context made by
  \<open>createContext()\<close> without an argument, or the object a provider passes as its
  \<open>value\<close>.  An object is truthy, \<open>undefined\<close> is falsy.
\<close>

datatype 'v jsvalue = Undefined | Object 'v

fun js_truthy :: "'v jsvalue \<Rightarrow> bool" where
  "js_truthy Undefined = False"
| "js_truthy (Object _) = True"

datatype js_error = Error string

text \<open>
  A component's position in the tree is given by the values of the \<open>AppContext\<close>
  providers that enclose it, innermost first.  \<open>useContext\<close> reads the nearest one, or
  the default where there is none.
\<close>

definition createContext :: "'v jsvalue" where
  "createContext = Undefined"

definition useContext :: "'v jsvalue list \<Rightarrow> 'v jsvalue" where
  "useContext enclosing = (case enclosing of [] \<Rightarrow> createContext | v # _ \<Rightarrow> v)"

definition useAppContext :: "'v jsvalue list \<Rightarrow> js_error + 'v jsvalue" where
  "useAppContext enclosing =
     (let context = useContext enclosing
      in if \<not> js_truthy context
         then Inl (Error ''useAppContext must be used within an AppProvider'')
         else Inr context)"

text \<open>
  \<open>AppProvider\<close> renders its children inside \<open>AppContext.Provider\<close> with the object
  \<open>value\<close>: for them the provider's value is the innermost one.
\<close>

definition AppProvider :: "'v \<Rightarrow> 'v jsvalue list \<Rightarrow> 'v jsvalue list" where
  "AppProvider val enclosing = Object val # enclosing"

section \<open>The pulse view (PulseView.jsx)\<close>

text \<open>
  The \<open>kpis\<close> object of the \<open>pulse-data\<close> response.  Fractional quantities are exact
  rationals; a change field that the server reports as undefined is \<open>None\<close>.
\<close>

record PulseKpis =
  bytesProcessedWTD :: rat
  bytesProcessedChange :: "rat option"
  slotMsWTD :: rat
  slotMsChange :: "rat option"
  avgJobDurationWTD :: rat
  jobsDelayedWTD :: rat
  queryCacheRateWTD :: rat
  spillsToDiskWTD :: rat

type_synonym chart = "(string \<times> rat) list"

record Reservations =
  totalSlotCapacity :: nat
  totalSlots :: nat
  totalIdleSlots :: nat

text \<open>The \<open>pulse-data\<close> response.\<close>

record PulseData =
  weeklyBytesProcessed :: chart
  weeklySlotMs :: chart
  bytesProcessedHourly :: chart
  slotRateHourly :: chart
  pulse_kpis :: PulseKpis
  reservations :: Reservations

record PulseState =
  pulseData :: "PulseData option"
  pulse_loading :: bool

text \<open>The mock data that \<open>fetchPulseData\<close> installs when the request fails.\<close>

definition mock_kpis :: PulseKpis where
  "mock_kpis = \<lparr> bytesProcessedWTD = 29 / 100, bytesProcessedChange = Some (- 77 / 10),
       slotMsWTD = 781 / 10, slotMsChange = Some (335 / 10),
       avgJobDurationWTD = 58 / 10, jobsDelayedWTD = 3 / 10,
       queryCacheRateWTD = 669 / 10, spillsToDiskWTD = 0 \<rparr>"

definition mock_pulseData :: PulseData where
  "mock_pulseData =
     \<lparr> weeklyBytesProcessed =
         [(''May'', 152 / 10), (''Jun'', 185 / 10), (''Jul'', 128 / 10),
          (''Aug'', 82 / 10), (''Sep'', 61 / 10)],
       weeklySlotMs =
         [(''May'', 2800), (''Jun'', 1200), (''Jul'', 800), (''Aug'', 400), (''Sep'', 200)],
       bytesProcessedHourly =
         [(''Sep 19'', 0), (''Sep 20'', 45), (''Sep 21'', 120), (''Sep 22'', 180),
          (''Sep 23'', 200), (''Sep 24'', 150), (''Sep 25'', 90), (''Sep 26'', 250),
          (''Sep 27'', 180)],
       slotRateHourly =
         [(''Sep 19'', 0), (''Sep 20'', 12 / 10), (''Sep 21'', 38 / 10), (''Sep 22'', 21 / 10),
          (''Sep 23'', 18 / 10), (''Sep 24'', 25 / 10), (''Sep 25'', 32 / 10),
          (''Sep 26'', 41 / 10), (''Sep 27'', 39 / 10)],
       pulse_kpis = mock_kpis,
       reservations =
         \<lparr> totalSlotCapacity = 960, totalSlots = 1000, totalIdleSlots = 1000 \<rparr> \<rparr>"

definition fetchPulseData ::
  "string \<Rightarrow> string \<Rightarrow> HttpError + PulseData \<Rightarrow> PulseState \<Rightarrow> PulseState \<times> effect list" where
  "fetchPulseData selectedProject selectedRegion outcome s =
     (let s1 = s\<lparr> pulse_loading := True \<rparr>;
          req = GetPulseData selectedProject selectedRegion
      in case outcome of
           Inr data \<Rightarrow> (s1\<lparr> pulseData := Some data, pulse_loading := False \<rparr>, [req])
         | Inl err \<Rightarrow>
             (s1\<lparr> pulseData := Some mock_pulseData, pulse_loading := False \<rparr>,
              [req, ConsoleError ''Error fetching pulse data:'']))"

text \<open>Rendered content: literal text of the JSX, or a number interpolated from the data.\<close>

datatype content = Text string | Number rat

record MetricCard =
  metric_value :: "content list"
  metric_unit :: string
  metric_label :: string
  change_class :: string
  change_text :: "content list"

text \<open>
  The two metric cards of the top rows.  Their JSX holds literal text only:
  \<open><span className="metric-value">0.29</span>\<close>, \<open><span>7.7% PROCESSED WOW</span>\<close>.
\<close>

definition bytesProcessedCard :: "PulseKpis \<Rightarrow> MetricCard" where
  "bytesProcessedCard kpis =
     \<lparr> metric_value = [Text ''0.29''], metric_unit = ''TiB'',
       metric_label = ''Bytes Processed WTD'', change_class = ''metric-change negative'',
       change_text = [Text ''7.7% PROCESSED WOW''] \<rparr>"

definition slotMsCard :: "PulseKpis \<Rightarrow> MetricCard" where
  "slotMsCard kpis =
     \<lparr> metric_value = [Text ''78.1''], metric_unit = ''M'',
       metric_label = ''Slot ms WTD'', change_class = ''metric-change positive'',
       change_text = [Text ''33.5% WOW''] \<rparr>"

text \<open>
  The cards of the bottom row interpolate the data: \<open>{kpis.avgJobDurationWTD}s\<close>,
  \<open>{kpis.jobsDelayedWTD}%\<close>, \<open>{kpis.queryCacheRateWTD}%\<close>, \<open>{kpis.spillsToDiskWTD}\<close>.
\<close>

definition latencyCards :: "PulseKpis \<Rightarrow> (content list \<times> string) list" where
  "latencyCards kpis =
     [([Number (avgJobDurationWTD kpis), Text ''s''], ''Avg Job Duration WTD''),
      ([Number (jobsDelayedWTD kpis), Text ''%''], ''Jobs Delayed >1s WTD'')]"

definition optimizationCards :: "PulseKpis \<Rightarrow> (content list \<times> string) list" where
  "optimizationCards kpis =
     [([Number (queryCacheRateWTD kpis), Text ''%''], ''Query Cache Rate WTD''),
      ([Number (spillsToDiskWTD kpis)], ''Spills to Disk WTD'')]"

text \<open>
  What the view shows of the change figures: the loader while loading (or before any
  data), otherwise the two week-over-week cards and the bottom-row cards, all given
  the \<open>kpis\<close> of the data.
\<close>

record PulseCards =
  bytes_card :: MetricCard
  slot_card :: MetricCard
  latency_cards :: "(content list \<times> string) list"
  optimization_cards :: "(content list \<times> string) list"

definition PulseView :: "PulseState \<Rightarrow> PulseCards option" where
  "PulseView s =
     (if pulse_loading s then None
      else (case pulseData s of
              None \<Rightarrow> None
            | Some data \<Rightarrow>
                Some \<lparr> bytes_card = bytesProcessedCard (pulse_kpis data),
                       slot_card = slotMsCard (pulse_kpis data),
                       latency_cards = latencyCards (pulse_kpis data),
                       optimization_cards = optimizationCards (pulse_kpis data) \<rparr>))"

text \<open>
  A \<open>pulse-data\<close> payload for a window whose preceding window totals 0: the current
  total is 10 and both change fields are undefined.
\<close>

definition no_prior_data_kpis :: PulseKpis where
  "no_prior_data_kpis = \<lparr> bytesProcessedWTD = 10, bytesProcessedChange = None,
       slotMsWTD = 10, slotMsChange = None,
       avgJobDurationWTD = 1, jobsDelayedWTD = 0,
       queryCacheRateWTD = 0, spillsToDiskWTD = 0 \<rparr>"

definition no_prior_data :: PulseData where
  "no_prior_data =
     \<lparr> weeklyBytesProcessed = [(''Sep'', 10)], weeklySlotMs = [(''Sep'', 10)],
       bytesProcessedHourly = [], slotRateHourly = [],
       pulse_kpis = no_prior_data_kpis,
       reservations = \<lparr> totalSlotCapacity = 0, totalSlots = 0, totalIdleSlots = 0 \<rparr> \<rparr>"

definition initial_PulseState :: PulseState where
  "initial_PulseState = \<lparr> pulseData = None, pulse_loading = True \<rparr>"

section \<open>The organization overview (OrganizationOverview.jsx)\<close>

text \<open>
  One element of \<open>projects\<close> in the \<open>organization-overview\<close> response, and its
  \<open>orgStats\<close>.  Counts are non-negative integers; slot hours and terabytes are
  fractional and kept as exact rationals.
\<close>

record ProjectRow =
  row_project_id :: string
  total_queries :: nat
  slot_hours :: rat
  tb_processed :: rat
  error_count :: nat

record OrgStats =
  totalProjects :: nat
  totalQueries :: nat
  totalSlotHours :: rat
  totalUsers :: nat
  totalTBProcessed :: rat
  totalErrors :: nat

record OrgResponse =
  resp_projects :: "ProjectRow list"
  resp_orgStats :: OrgStats

datatype project_status = warning | healthy

record Project =
  id' :: string
  name :: string
  description :: string
  queriesLast24h :: nat
  slotHoursLast24h :: rat
  topUsers :: "string list"
  status :: project_status
  tbProcessed :: rat
  errorCount :: nat

record OrgState =
  projects :: "Project list"
  orgStats :: OrgStats
  loading :: bool

subsection \<open>The comparison \<open>error_count > total_queries * 0.05\<close>\<close>

text \<open>
  JavaScript numbers are IEEE 754 doubles.  A count below \<open>2^53\<close> is a double exactly.
  The literal \<open>0.05\<close> is the double \<open>3602879701896397 / 2^56\<close>.  The product of a
  count \<open>n\<close> and this constant is the exact product rounded to 53 significant bits,
  ties to even; below it is kept as a natural number in units of \<open>2^-56\<close>.
\<close>

fun bitlength :: "nat \<Rightarrow> nat" where
  "bitlength n = (if n = 0 then 0 else Suc (bitlength (n div 2)))"

declare bitlength.simps [simp del]

definition round_to_53_bits :: "nat \<Rightarrow> nat" where
  "round_to_53_bits p =
     (if bitlength p \<le> 53 then p
      else
        (let d = bitlength p - 53;
             q = p div 2 ^ d;
             r = p mod 2 ^ d;
             half = 2 ^ (d - 1)
         in (if half < r \<or> (r = half \<and> odd q) then q + 1 else q) * 2 ^ d))"

definition times_0_05 :: "nat \<Rightarrow> nat" where
  "times_0_05 n = round_to_53_bits (n * 3602879701896397)"

definition exceeds_0_05_of :: "nat \<Rightarrow> nat \<Rightarrow> bool" where
  "exceeds_0_05_of e n = (times_0_05 n < e * 2 ^ 56)"

subsection \<open>Formatting the response\<close>

text \<open>\<open>Math.round(x * 100) / 100\<close>; \<open>Math.round\<close> rounds halves upwards.\<close>

definition round2 :: "rat \<Rightarrow> rat" where
  "round2 x = of_int \<lfloor>x * 100 + 1 / 2\<rfloor> / 100"

text \<open>
  \<open>project_id.replace(/-/g, ' ').replace(/\b\w/g, l => l.toUpperCase())\<close>: hyphens
  become spaces, then every word character (letter, digit, underscore) that follows a
  non-word character or starts the text is put in upper case.
\<close>

definition is_word_char :: "char \<Rightarrow> bool" where
  "is_word_char c =
     (let n = (of_char c :: nat)
      in (48 \<le> n \<and> n \<le> 57) \<or> (65 \<le> n \<and> n \<le> 90) \<or> n = 95 \<or> (97 \<le> n \<and> n \<le> 122))"

definition toUpperCase :: "char \<Rightarrow> char" where
  "toUpperCase c =
     (let n = (of_char c :: nat) in if 97 \<le> n \<and> n \<le> 122 then char_of (n - 32) else c)"

fun capitalize_words :: "bool \<Rightarrow> string \<Rightarrow> string" where
  "capitalize_words after_word [] = []"
| "capitalize_words after_word (c # cs) =
     (if is_word_char c \<and> \<not> after_word then toUpperCase c else c)
       # capitalize_words (is_word_char c) cs"

definition display_name :: "string \<Rightarrow> string" where
  "display_name pid =
     capitalize_words False (map (\<lambda>c. if c = CHR ''-'' then CHR '' '' else c) pid)"

definition formatProject :: "ProjectRow \<Rightarrow> Project" where
  "formatProject project =
     \<lparr> id' = row_project_id project,
       name = display_name (row_project_id project),
       description = ''BigQuery project: '' @ row_project_id project,
       queriesLast24h = total_queries project,
       slotHoursLast24h = round2 (slot_hours project),
       topUsers = [],
       status = (if exceeds_0_05_of (error_count project) (total_queries project)
                 then warning else healthy),
       tbProcessed = round2 (tb_processed project),
       errorCount = error_count project \<rparr>"

definition empty_orgStats :: OrgStats where
  "empty_orgStats = \<lparr> totalProjects = 0, totalQueries = 0, totalSlotHours = 0,
       totalUsers = 0, totalTBProcessed = 0, totalErrors = 0 \<rparr>"

definition fetchOrganizationData ::
  "string \<Rightarrow> HttpError + OrgResponse \<Rightarrow> OrgState \<Rightarrow> OrgState \<times> effect list" where
  "fetchOrganizationData selectedRegion outcome s =
     (let s1 = s\<lparr> loading := True \<rparr>;
          req = GetOrganizationOverview selectedRegion
      in case outcome of
           Inr data \<Rightarrow>
             (let projectsData = resp_projects data;
                  statsData = resp_orgStats data;
                  formattedProjects = map formatProject projectsData;
                  s2 = s1\<lparr> projects := formattedProjects \<rparr>;
                  s3 = s2\<lparr> orgStats :=
                         \<lparr> totalProjects = totalProjects statsData,
                           totalQueries = totalQueries statsData,
                           totalSlotHours = round2 (totalSlotHours statsData),
                           totalUsers = totalUsers statsData,
                           totalTBProcessed = round2 (totalTBProcessed statsData),
                           totalErrors = totalErrors statsData \<rparr> \<rparr>
              in (s3\<lparr> loading := False \<rparr>, [req]))
         | Inl err \<Rightarrow>
             (let s2 = s1\<lparr> projects := [] \<rparr>;
                  s3 = s2\<lparr> orgStats := empty_orgStats \<rparr>
              in (s3\<lparr> loading := False \<rparr>,
                  [req, ConsoleError ''Error fetching organization data:''])))"

text \<open>Rows of the examples: 100 queries with a given error count, and a very large one.\<close>

definition sample_row :: "nat \<Rightarrow> ProjectRow" where
  "sample_row errors = \<lparr> row_project_id = ''analytics-1'', total_queries = 100,
       slot_hours = 5 / 2, tb_processed = 1 / 8, error_count = errors \<rparr>"

definition quadrillion_row :: ProjectRow where
  "quadrillion_row = \<lparr> row_project_id = ''analytics-1'', total_queries = 7999999999999999,
       slot_hours = 5 / 2, tb_processed = 1 / 8, error_count = 400000000000000 \<rparr>"

section \<open>The time-window view (TimeWindowInvestigation.jsx)\<close>

text \<open>The \<open>kpis\<close> object of the \<open>operational-dashboard\<close> response, field by field.\<close>

record DashboardKpis =
  slotUsage_current :: rat
  slotUsage_max :: rat
  slotUsage_unit :: string
  jobConcurrency_current :: rat
  jobConcurrency_max :: rat
  jobConcurrency_unit :: string
  errors_count :: nat
  errors_percentage :: rat
  avgJobDuration_value :: rat
  avgJobDuration_unit :: string
  bytesProcessed_value :: rat
  bytesProcessed_unit :: string
  totalJobs_value :: nat
  totalJobs_unit :: string
  activeUsers_value :: nat
  activeUsers_unit :: string

record DashboardData =
  kpis :: DashboardKpis
  slotUsageChart :: chart
  jobDurationChart :: chart
  bytesProcessedChart :: chart
  errorBreakdown :: chart
  dashboard_topUsers :: chart

record DashboardState =
  dashboardData :: "DashboardData option"
  timeRange :: string
  dashboard_loading :: bool

text \<open>The data installed when the request fails.\<close>

definition fallback_dashboardData :: DashboardData where
  "fallback_dashboardData =
     \<lparr> kpis =
         \<lparr> slotUsage_current = 0, slotUsage_max = 2000, slotUsage_unit = ''slots'',
           jobConcurrency_current = 0, jobConcurrency_max = 100, jobConcurrency_unit = ''jobs'',
           errors_count = 0, errors_percentage = 0,
           avgJobDuration_value = 0, avgJobDuration_unit = ''minutes'',
           bytesProcessed_value = 0, bytesProcessed_unit = ''TB'',
           totalJobs_value = 0, totalJobs_unit = ''jobs'',
           activeUsers_value = 0, activeUsers_unit = ''users'' \<rparr>,
       slotUsageChart = [], jobDurationChart = [], bytesProcessedChart = [],
       errorBreakdown = [], dashboard_topUsers = [] \<rparr>"

definition fetchDashboardData ::
  "string \<Rightarrow> string \<Rightarrow> HttpError + DashboardData \<Rightarrow> DashboardState
     \<Rightarrow> DashboardState \<times> effect list" where
  "fetchDashboardData selectedProject selectedRegion outcome s =
     (let s1 = s\<lparr> dashboard_loading := True \<rparr>;
          req = GetOperationalDashboard (timeRange s) selectedProject selectedRegion
      in case outcome of
           Inr data \<Rightarrow>
             (s1\<lparr> dashboardData := Some data, dashboard_loading := False \<rparr>, [req])
         | Inl err \<Rightarrow>
             (s1\<lparr> dashboardData := Some fallback_dashboardData, dashboard_loading := False \<rparr>,
              [req, ConsoleError ''Error fetching dashboard data:'']))"

section \<open>The metrics and ranking services behind the views\<close>

text \<open>
  The views above only display what the server computes.  The server (a Python
  application of the same repository) is not among the sources; its data model and
  operations are taken from the specification, sections 3, 4, 6 and 7.
\<close>

subsection \<open>Data model\<close>

text \<open>
  Modelled from the spec: the terminal status of the server's \<open>ExecutionRecord\<close>
  (section 3): success, or error with the error category.
\<close>

datatype terminal_status = Success | Failure string

text \<open>
  Modelled from the spec: the server's \<open>ExecutionRecord\<close> (section 3): one historical
  job run with identifier, owning project, initiating user, submission time, duration,
  slot-milliseconds consumed, bytes processed, cache-hit flag, terminal status and
  normalized query text.
\<close>

record ExecutionRecord =
  job_identifier :: string
  owning_project :: string
  initiating_user :: string
  submission_time :: int
  duration :: nat
  slot_milliseconds :: nat
  bytes_processed :: nat
  cache_hit :: bool
  terminal :: terminal_status
  query_text :: jsstring

text \<open>
  Modelled from the spec: the server's project selector (section 9): the tagged
  variant `all projects' or a single project id.
\<close>

datatype project_scope = AllProjects | SingleProject string

text \<open>
  Modelled from the spec: the server's scope (glossary): the (project, region) selector
  narrowing which execution records a query considers.
\<close>

record Scope =
  scope_project :: project_scope
  scope_region :: string

text \<open>
  Modelled from the spec: the server's window (section 3, glossary): the half-open
  time range filtering execution records by submission time.
\<close>

record TimeWindow =
  window_start :: int
  window_end :: int

text \<open>
  Modelled from the spec: the server's error taxonomy (section 7), to which the
  division fault that section 4.2 rules out is added as a value.
\<close>

datatype service_error =
    InvalidScope | ScopeDenied | UpstreamUnavailable | RecommendationUnavailable
  | DivisionFault

text \<open>
  Modelled from the spec: the warehouse state read by the server (section 3): the job
  history of each region.
\<close>

type_synonym warehouse = "string \<Rightarrow> ExecutionRecord list"

subsection \<open>Warehouse query gateway\<close>

text \<open>
  Modelled from the spec: the server's scope and window filter (section 4.1,
  glossary): a record is in scope when it belongs to the selected project, or any
  project is selected, and was submitted inside the half-open window.
\<close>

definition in_scope :: "Scope \<Rightarrow> TimeWindow \<Rightarrow> ExecutionRecord \<Rightarrow> bool" where
  "in_scope sc w r =
     ((case scope_project sc of AllProjects \<Rightarrow> True | SingleProject p \<Rightarrow> owning_project r = p)
      \<and> window_start w \<le> submission_time r \<and> submission_time r < window_end w)"

text \<open>
  Modelled from the spec: the server's \<open>runAggregateQuery(scope, window)\<close> (section
  4.1): a window with \<open>end \<le> start\<close> fails with \<open>InvalidScope\<close>; otherwise the rows are
  the records of the scope's region that are in scope.
\<close>

definition runAggregateQuery ::
  "warehouse \<Rightarrow> Scope \<Rightarrow> TimeWindow \<Rightarrow> service_error + ExecutionRecord list" where
  "runAggregateQuery wh sc w =
     (if window_end w \<le> window_start w then Inl InvalidScope
      else Inr (filter (in_scope sc w) (wh (scope_region sc))))"

subsection \<open>Metrics aggregator\<close>

text \<open>
  Modelled from the spec: the server's \<open>KPISet\<close> (section 3): totals and rates over a
  collection of records.
\<close>

record KPISet =
  kpi_total_jobs :: nat
  kpi_total_slot_ms :: nat
  kpi_total_bytes :: nat
  kpi_error_count :: nat
  kpi_error_rate :: rat
  kpi_cache_hit_rate :: rat

text \<open>
  Modelled from the spec: the running sums of the server's \<open>aggregate\<close> (section 4.2),
  computed over exactly the input records.
\<close>

record Totals =
  jobs :: nat
  slot_ms_sum :: nat
  bytes_sum :: nat
  errors :: nat
  cache_hits :: nat

text \<open>Modelled from the spec: the sums of the server's \<open>aggregate\<close> before the first record.\<close>

definition no_totals :: Totals where
  "no_totals = \<lparr> jobs = 0, slot_ms_sum = 0, bytes_sum = 0, errors = 0, cache_hits = 0 \<rparr>"

text \<open>
  Modelled from the spec: one step of the server's \<open>aggregate\<close>: a record adds one job,
  its slot-milliseconds and bytes, one error when it failed, one hit when it was
  served from cache.
\<close>

definition add_record :: "Totals \<Rightarrow> ExecutionRecord \<Rightarrow> Totals" where
  "add_record t r =
     \<lparr> jobs = jobs t + 1,
       slot_ms_sum = slot_ms_sum t + slot_milliseconds r,
       bytes_sum = bytes_sum t + bytes_processed r,
       errors = errors t + (if terminal r = Success then 0 else 1),
       cache_hits = cache_hits t + (if cache_hit r then 1 else 0) \<rparr>"

text \<open>
  Modelled from the spec: the division of the server's \<open>aggregate\<close>, whose fault on a
  zero denominator section 4.2 speaks of.
\<close>

definition quotient :: "nat \<Rightarrow> nat \<Rightarrow> service_error + rat" where
  "quotient a b = (if b = 0 then Inl DivisionFault else Inr (of_nat a / of_nat b))"

text \<open>
  Modelled from the spec: a rate field of the server's \<open>aggregate\<close> (section 4.2):
  zero when the denominator is zero, the quotient otherwise.
\<close>

definition rate :: "nat \<Rightarrow> nat \<Rightarrow> service_error + rat" where
  "rate part whole = (if whole = 0 then Inr 0 else quotient part whole)"

text \<open>
  Modelled from the spec: the server's \<open>aggregate(records, window)\<close> (section 4.2): one
  pass over the input records accumulates the sums; the error rate and the cache-hit
  rate have the total number of jobs as denominator.
\<close>

definition aggregate :: "ExecutionRecord list \<Rightarrow> TimeWindow \<Rightarrow> service_error + KPISet" where
  "aggregate records w =
     (let t = foldl add_record no_totals records
      in case rate (errors t) (jobs t) of
           Inl fault \<Rightarrow> Inl fault
         | Inr error_rate \<Rightarrow>
             (case rate (cache_hits t) (jobs t) of
                Inl fault \<Rightarrow> Inl fault
              | Inr hit_rate \<Rightarrow>
                  Inr \<lparr> kpi_total_jobs = jobs t,
                        kpi_total_slot_ms = slot_ms_sum t,
                        kpi_total_bytes = bytes_sum t,
                        kpi_error_count = errors t,
                        kpi_error_rate = error_rate,
                        kpi_cache_hit_rate = hit_rate \<rparr>))"

text \<open>
  Modelled from the spec: the server's \<open>KPISet\<close> as a function of time window, scope
  and warehouse state (invariant of section 3): the aggregate of the gateway's rows.
\<close>

definition kpiSet :: "warehouse \<Rightarrow> Scope \<Rightarrow> TimeWindow \<Rightarrow> service_error + KPISet" where
  "kpiSet wh sc w =
     (case runAggregateQuery wh sc w of
        Inl e \<Rightarrow> Inl e
      | Inr records \<Rightarrow> aggregate records w)"

subsection \<open>Query ranking service\<close>

text \<open>
  Modelled from the spec: the server's ranking order (section 4.3): descending by
  slot-milliseconds, ties broken by ascending submission time.
\<close>

definition costs_before :: "ExecutionRecord \<Rightarrow> ExecutionRecord \<Rightarrow> bool" where
  "costs_before a b =
     (slot_milliseconds b < slot_milliseconds a
      \<or> (slot_milliseconds a = slot_milliseconds b \<and> submission_time a \<le> submission_time b))"

text \<open>
  Modelled from the spec: the server's ordering step (section 4.3): a record is put
  before the first record of an ordered list that it costs before.
\<close>

fun insert_by_cost :: "ExecutionRecord \<Rightarrow> ExecutionRecord list \<Rightarrow> ExecutionRecord list" where
  "insert_by_cost x [] = [x]"
| "insert_by_cost x (y # ys) =
     (if costs_before x y then x # y # ys else y # insert_by_cost x ys)"

text \<open>
  Modelled from the spec: the server's ordering of the records in scope (section 4.3),
  as an insertion sort by the ranking order.
\<close>

definition sort_by_cost :: "ExecutionRecord list \<Rightarrow> ExecutionRecord list" where
  "sort_by_cost rs = foldr insert_by_cost rs []"

text \<open>
  Modelled from the spec: the server's \<open>RankedQuery\<close> (section 3): an execution record
  annotated with its rank \<open>1..N\<close> within a scope.
\<close>

record RankedQuery =
  rank :: nat
  ranked :: ExecutionRecord

text \<open>
  Modelled from the spec: the rank annotation of the server's \<open>topByCost\<close> (section 3):
  consecutive ranks from a first one, in list order.
\<close>

fun assign_ranks :: "nat \<Rightarrow> ExecutionRecord list \<Rightarrow> RankedQuery list" where
  "assign_ranks r [] = []"
| "assign_ranks r (x # xs) = \<lparr> rank = r, ranked = x \<rparr> # assign_ranks (Suc r) xs"

text \<open>
  Modelled from the spec: the server's \<open>topByCost(scope, window, n)\<close> (section 4.3):
  the first \<open>n\<close> records of the scope in ranking order, ranked from 1; fewer when
  fewer exist.
\<close>

definition topByCost ::
  "warehouse \<Rightarrow> Scope \<Rightarrow> TimeWindow \<Rightarrow> nat \<Rightarrow> service_error + RankedQuery list" where
  "topByCost wh sc w n =
     (case runAggregateQuery wh sc w of
        Inl e \<Rightarrow> Inl e
      | Inr records \<Rightarrow> Inr (assign_ranks 1 (take n (sort_by_cost records))))"

subsection \<open>Organization overview\<close>

text \<open>Modelled from the spec: the server's test for a record with terminal status error.\<close>

definition failed :: "ExecutionRecord \<Rightarrow> bool" where
  "failed r = (terminal r \<noteq> Success)"

text \<open>
  Modelled from the spec: the server's slot-hours KPI (section 2): the
  slot-milliseconds of the records, at 3600000 milliseconds to the hour.
\<close>

definition slot_hours_of :: "ExecutionRecord list \<Rightarrow> rat" where
  "slot_hours_of rs = of_nat (sum_list (map slot_milliseconds rs)) / 3600000"

text \<open>
  Modelled from the spec: the server's byte-volume KPI (section 2) in terabytes; the
  number of bytes in a terabyte is a parameter.
\<close>

definition terabytes_of :: "nat \<Rightarrow> ExecutionRecord list \<Rightarrow> rat" where
  "terabytes_of bytes_per_tb rs = of_nat (sum_list (map bytes_processed rs)) / of_nat bytes_per_tb"

text \<open>
  Modelled from the spec: the server's per-project rollup (section 2), in the shape of
  a \<open>projects\<close> element of the \<open>organization-overview\<close> response (section 6).
\<close>

definition project_rollup :: "nat \<Rightarrow> ExecutionRecord list \<Rightarrow> string \<Rightarrow> ProjectRow" where
  "project_rollup bytes_per_tb rs p =
     (let mine = filter (\<lambda>r. owning_project r = p) rs
      in \<lparr> row_project_id = p,
           total_queries = length mine,
           slot_hours = slot_hours_of mine,
           tb_processed = terabytes_of bytes_per_tb mine,
           error_count = length (filter failed mine) \<rparr>)"

text \<open>
  Modelled from the spec: the server's \<open>organization-overview\<close> (section 6): one rollup
  for each project that owns a row of the gateway, and the statistics over all rows.
\<close>

definition organization_overview ::
  "nat \<Rightarrow> warehouse \<Rightarrow> Scope \<Rightarrow> TimeWindow \<Rightarrow> service_error + OrgResponse" where
  "organization_overview bytes_per_tb wh sc w =
     (case runAggregateQuery wh sc w of
        Inl e \<Rightarrow> Inl e
      | Inr rs \<Rightarrow>
          Inr \<lparr> resp_projects =
                  map (project_rollup bytes_per_tb rs) (remdups (map owning_project rs)),
                resp_orgStats =
                  \<lparr> totalProjects = length (remdups (map owning_project rs)),
                    totalQueries = length rs,
                    totalSlotHours = slot_hours_of rs,
                    totalUsers = length (remdups (map initiating_user rs)),
                    totalTBProcessed = terabytes_of bytes_per_tb rs,
                    totalErrors = length (filter failed rs) \<rparr> \<rparr>)"

subsection \<open>Concrete warehouse of the examples\<close>

definition job :: "string \<Rightarrow> string \<Rightarrow> int \<Rightarrow> nat \<Rightarrow> nat \<Rightarrow> terminal_status \<Rightarrow> ExecutionRecord" where
  "job i p t ms bytes st =
     \<lparr> job_identifier = i, owning_project = p, initiating_user = ''a@example.com'',
       submission_time = t, duration = 2, slot_milliseconds = ms, bytes_processed = bytes,
       cache_hit = False, terminal = st, query_text = js ''SELECT 1'' \<rparr>"

text \<open>
  Three jobs of project \<open>analytics-1\<close> in region \<open>us\<close>; two cost the same and differ in
  submission time.  Region \<open>eu\<close> and every other region hold nothing.
\<close>

definition sample_jobs :: "ExecutionRecord list" where
  "sample_jobs =
     [job ''j1'' ''analytics-1'' 30 500 1000 Success,
      job ''j2'' ''analytics-1'' 10 900 2000 (Failure ''quota''),
      job ''j3'' ''analytics-1'' 20 900 4000 Success]"

definition sample_warehouse :: warehouse where
  "sample_warehouse region = (if region = ''us'' then sample_jobs else [])"

text \<open>A second warehouse state that differs from the first in region \<open>eu\<close> only.\<close>

definition other_warehouse :: warehouse where
  "other_warehouse region =
     (if region = ''eu'' then [job ''j9'' ''analytics-1'' 5 7 70 Success]
      else sample_warehouse region)"

definition empty_warehouse :: warehouse where
  "empty_warehouse region = []"

definition sample_ranking :: "RankedQuery list" where
  "sample_ranking =
     [\<lparr> rank = 1, ranked = job ''j2'' ''analytics-1'' 10 900 2000 (Failure ''quota'') \<rparr>,
      \<lparr> rank = 2, ranked = job ''j3'' ''analytics-1'' 20 900 4000 Success \<rparr>,
      \<lparr> rank = 3, ranked = job ''j1'' ''analytics-1'' 30 500 1000 Success \<rparr>]"

definition sample_kpis :: KPISet where
  "sample_kpis = \<lparr> kpi_total_jobs = 3, kpi_total_slot_ms = 2300, kpi_total_bytes = 7000,
       kpi_error_count = 1, kpi_error_rate = 1 / 3, kpi_cache_hit_rate = 0 \<rparr>"

definition zero_kpis :: KPISet where
  "zero_kpis = \<lparr> kpi_total_jobs = 0, kpi_total_slot_ms = 0, kpi_total_bytes = 0,
       kpi_error_count = 0, kpi_error_rate = 0, kpi_cache_hit_rate = 0 \<rparr>"

definition sample_scope :: "string \<Rightarrow> Scope" where
  "sample_scope region = \<lparr> scope_project = SingleProject ''analytics-1'', scope_region = region \<rparr>"

definition sample_window :: TimeWindow where
  "sample_window = \<lparr> window_start = 0, window_end = 86400 \<rparr>"

definition empty_overview :: OrgResponse where
  "empty_overview = \<lparr> resp_projects = [], resp_orgStats = empty_orgStats \<rparr>"

definition initial_OrgState :: OrgState where
  "initial_OrgState = \<lparr> projects = [], orgStats = empty_orgStats, loading = True \<rparr>"

section \<open>Deselecting a query\<close>

text \<open>
  C9. Invoking the selection handler with the job id that is already selected
  deselects it: the selected job id and the query details are cleared, the
  recommendations text is emptied, every other field keeps its value, and nothing is
  sent, logged or shown (in particular no query-details request), whatever the outcome
  of a request would have been.
\<close>

theorem handleQuerySelect_deselects:
  assumes "selectedJobId s = Some jobId"
  shows "handleQuerySelect jobId outcome s =
           (s\<lparr> selectedJobId := None, queryDetails := None, recommendations := [] \<rparr>, [])"
  using assms by (simp add: handleQuerySelect_def)

theorem handleQuerySelect_deselects_witness:
  "selectedJobId held_state = Some ''job_42''
   \<and> handleQuerySelect ''job_42'' (Inl network_error) held_state
       = (\<lparr> expensiveQueries = [], selectedJobId = None, queryDetails = None,
            recommendations = [], debugInfo = [], isModalOpen = False,
            loadingQueries = False, loadingDetails = False, loadingRecommendations = False \<rparr>,
          [])"
  using handleQuerySelect_deselects [of held_state "''job_42''" "Inl network_error"]
  by (simp add: held_state_def)

section \<open>A failed recommendation call\<close>

text \<open>
  C3, as stated, fails: a failed recommendation call affects more than the
  recommendation result and the loading flag.  With query details held and the modal
  closed, the call leaves the modal open.
\<close>

theorem failed_recommendation_opens_modal:
  "queryDetails held_state = Some held_details
   \<and> \<not> only_recommendation_and_loading_affected held_state
         (fst (getOptimizationRecommendations (Inl network_error) held_state))"
  by (simp add: held_state_def getOptimizationRecommendations_def
        only_recommendation_and_loading_affected_def)

text \<open>
  C3, amended. For every held (query, ddl) pair, a failed recommendation call leaves
  the query details, the selection, the list, the debug text and the earlier
  recommendations text unchanged; it sets the modal-open flag and resets the loading
  flag, sends exactly one optimize request built from the held pair, logs and alerts.
  The details are still held afterwards, and a retry sends the same optimize request
  and no other request, so nothing is fetched again.
\<close>

theorem failed_recommendation_keeps_details:
  assumes "queryDetails s = Some d"
  shows "getOptimizationRecommendations (Inl err) s =
           (s\<lparr> isModalOpen := True, loadingRecommendations := False \<rparr>,
            [PostOptimize (qd_query d) (qd_ddl d),
             ConsoleError ''Error getting recommendations:'',
             Alert ''Error getting recommendations. Check the backend logs and your Gemini API key.''])
         \<and> queryDetails (fst (getOptimizationRecommendations (Inl err) s)) = Some d
         \<and> filter is_request
             (snd (getOptimizationRecommendations retry
                     (fst (getOptimizationRecommendations (Inl err) s))))
           = [PostOptimize (qd_query d) (qd_ddl d)]"
  using assms by (simp add: getOptimizationRecommendations_def Let_def split: sum.split)

theorem failed_recommendation_keeps_details_witness:
  "queryDetails held_state = Some held_details
   \<and> fst (getOptimizationRecommendations (Inl network_error) held_state)
       = held_state\<lparr> isModalOpen := True \<rparr>
   \<and> filter is_request
        (snd (getOptimizationRecommendations (Inr ''Cluster the table'')
                (fst (getOptimizationRecommendations (Inl network_error) held_state))))
       = [PostOptimize (js ''SELECT * FROM t'') (js ''CREATE TABLE t (x INT64)'')]"
proof -
  have h: "queryDetails held_state = Some held_details"
    by (simp add: held_state_def)
  show ?thesis
    using h failed_recommendation_keeps_details [OF h, of network_error "Inr ''Cluster the table''"]
    by (auto simp: held_state_def held_details_def)
qed

section \<open>The query preview\<close>

lemma substring_0: "substring t 0 k = take k t"
  by (simp add: substring_def Let_def min_def)

text \<open>
  C2, as stated, fails: the fallback preview is cut by UTF-16 code units, and the cut
  can fall inside a surrogate pair.  For 149 letters followed by U+1F600 the preview
  is the first 150 units, ending in the unpaired high surrogate D83D.
\<close>

theorem preview_cuts_surrogate_pair:
  "queryPreviewText Config (fallback_row surrogate_text) = take 150 surrogate_text
   \<and> cuts_surrogate_pair surrogate_text
        (length (queryPreviewText Config (fallback_row surrogate_text)))"
  by (simp add: queryPreviewText_def Config_def fallback_row_def surrogate_text_def
        substring_0 or_else_def cuts_surrogate_pair_def is_high_surrogate_def
        is_low_surrogate_def nth_append)

text \<open>
  C2, amended. For every row without a server-side preview (absent or empty) whose
  query text \<open>t\<close> is non-empty, and every preview length \<open>K > 0\<close> (150 in
  \<open>Config\<close>), the preview is the first \<open>K\<close> UTF-16 code units of \<open>t\<close>: a prefix of
  \<open>t\<close> of length \<open>min K (length t)\<close>, so 150 units for a 500-unit text.  The cut
  falls inside a surrogate pair exactly when units \<open>K - 1\<close> and \<open>K\<close> of the text form
  one.
\<close>

theorem preview_is_code_unit_prefix:
  assumes "query_preview q = None \<or> query_preview q = Some []"
    and "query q = Some t" and "t \<noteq> []" and "0 < MAX_QUERY_PREVIEW_LENGTH cfg"
  shows "queryPreviewText cfg q = take (MAX_QUERY_PREVIEW_LENGTH cfg) t
       \<and> prefix (queryPreviewText cfg q) t
       \<and> length (queryPreviewText cfg q) = min (MAX_QUERY_PREVIEW_LENGTH cfg) (length t)
       \<and> cuts_surrogate_pair t (length (queryPreviewText cfg q))
           = (MAX_QUERY_PREVIEW_LENGTH cfg < length t
              \<and> is_high_surrogate (t ! (MAX_QUERY_PREVIEW_LENGTH cfg - 1))
              \<and> is_low_surrogate (t ! MAX_QUERY_PREVIEW_LENGTH cfg))"
proof -
  let ?K = "MAX_QUERY_PREVIEW_LENGTH cfg"
  have nonempty: "take ?K t \<noteq> []"
    using assms(3,4) by (cases t) auto
  have eq: "queryPreviewText cfg q = take ?K t"
    using assms(1,2) nonempty
    by (auto simp: queryPreviewText_def or_else_def substring_0)
  have pre: "prefix (take ?K t) t"
    by (rule take_is_prefix)
  have len: "length (take ?K t) = min ?K (length t)"
    by (simp add: min.commute)
  have cut: "cuts_surrogate_pair t (min ?K (length t))
      = (?K < length t \<and> is_high_surrogate (t ! (?K - 1)) \<and> is_low_surrogate (t ! ?K))"
    using assms(4) by (auto simp: cuts_surrogate_pair_def min_def)
  show ?thesis
    using eq pre len cut by simp
qed

theorem preview_is_code_unit_prefix_witness:
  "query_preview (fallback_row (replicate 500 0x61)) = None
   \<and> query (fallback_row (replicate 500 0x61)) = Some (replicate 500 0x61)
   \<and> replicate 500 (0x61 :: 16 word) \<noteq> []
   \<and> length (replicate 500 (0x61 :: 16 word)) = 500
   \<and> 0 < MAX_QUERY_PREVIEW_LENGTH Config
   \<and> MAX_QUERY_PREVIEW_LENGTH Config = 150
   \<and> queryPreviewText Config (fallback_row (replicate 500 0x61)) = replicate 150 0x61
   \<and> length (queryPreviewText Config (fallback_row (replicate 500 0x61))) = 150
   \<and> prefix (queryPreviewText Config (fallback_row (replicate 500 0x61))) (replicate 500 0x61)
   \<and> \<not> cuts_surrogate_pair (replicate 500 0x61)
         (length (queryPreviewText Config (fallback_row (replicate 500 0x61))))"
  using preview_is_code_unit_prefix
    [of "fallback_row (replicate 500 0x61)" "replicate 500 0x61" Config]
  by (auto simp: fallback_row_def Config_def is_high_surrogate_def)

text \<open>
  The other two branches of the preview cell: a non-empty server-side preview is shown
  as it is, and an empty or missing query text gives the placeholder.
\<close>

lemma preview_from_server:
  "query_preview q = Some p \<Longrightarrow> p \<noteq> [] \<Longrightarrow> queryPreviewText cfg q = p"
  by (simp add: queryPreviewText_def or_else_def)

lemma preview_placeholder:
  "query_preview q = None \<Longrightarrow> query q = None \<or> query q = Some []
   \<Longrightarrow> queryPreviewText cfg q = js ''No preview available''"
  by (auto simp: queryPreviewText_def or_else_def substring_0)

section \<open>Reading the context\<close>

text \<open>
  C10. Called from a component with no enclosing \<open>AppProvider\<close>, \<open>useAppContext\<close>
  throws the error `useAppContext must be used within an AppProvider'; called from a
  component inside an \<open>AppProvider\<close>, at any depth of further enclosing providers, it
  returns the value object that this provider shares.
\<close>

theorem useAppContext_provider:
  "useAppContext ([] :: 'v jsvalue list)
     = Inl (Error ''useAppContext must be used within an AppProvider'')
   \<and> useAppContext (AppProvider val enclosing) = Inr (Object val)"
  by (simp add: useAppContext_def useContext_def createContext_def AppProvider_def)

section \<open>The week-over-week change in the pulse view\<close>

lemma week_over_week_cards_fixed:
  "bytesProcessedCard k = bytesProcessedCard mock_kpis \<and> slotMsCard k = slotMsCard mock_kpis"
  by (simp add: bytesProcessedCard_def slotMsCard_def)

text \<open>
  C4 against the code: the two week-over-week cards ignore the payload.  After a
  successful fetch of a payload whose change fields are undefined, the view shows the
  numeric text `7.7% PROCESSED WOW' and `33.5% WOW', the same two cards as for the
  mock data, whose change fields are \<open>-7.7\<close> and \<open>33.5\<close>; the bottom-row cards of the
  same view do show the payload.
\<close>

theorem undefined_change_rendered_as_number:
  "bytesProcessedChange (pulse_kpis no_prior_data) = None
   \<and> slotMsChange (pulse_kpis no_prior_data) = None
   \<and> map_option (change_text \<circ> bytes_card)
        (PulseView (fst (fetchPulseData ''analytics-1'' ''us'' (Inr no_prior_data)
                           initial_PulseState)))
       = Some [Text ''7.7% PROCESSED WOW'']
   \<and> map_option (change_text \<circ> slot_card)
        (PulseView (fst (fetchPulseData ''analytics-1'' ''us'' (Inr no_prior_data)
                           initial_PulseState)))
       = Some [Text ''33.5% WOW'']
   \<and> bytesProcessedCard (pulse_kpis no_prior_data) = bytesProcessedCard mock_kpis
   \<and> slotMsCard (pulse_kpis no_prior_data) = slotMsCard mock_kpis
   \<and> latencyCards (pulse_kpis no_prior_data) \<noteq> latencyCards mock_kpis"
  by (simp add: no_prior_data_def no_prior_data_kpis_def mock_kpis_def fetchPulseData_def
        initial_PulseState_def PulseView_def bytesProcessedCard_def slotMsCard_def
        latencyCards_def)

section \<open>The project status threshold\<close>

subsection \<open>Rounding to 53 bits\<close>

lemma bitlength_0: "bitlength 0 = 0"
  by (simp add: bitlength.simps)

lemma bitlength_pos: "0 < n \<Longrightarrow> bitlength n = Suc (bitlength (n div 2))"
  by (subst bitlength.simps) simp

lemma bitlength_less: "n < 2 ^ bitlength n"
proof (induction n rule: bitlength.induct)
  case (1 n)
  show ?case
  proof (cases "n = 0")
    case True
    then show ?thesis by (simp add: bitlength_0)
  next
    case False
    then have "n div 2 < 2 ^ bitlength (n div 2)" using "1" by simp
    then have "n < 2 * 2 ^ bitlength (n div 2)" by linarith
    then show ?thesis using False by (simp add: bitlength_pos)
  qed
qed

lemma bitlength_ge: "0 < n \<Longrightarrow> 2 ^ (bitlength n - 1) \<le> n"
proof (induction n rule: bitlength.induct)
  case (1 n)
  show ?case
  proof (cases "n div 2 = 0")
    case True
    then have "n = 1" using "1.prems" by linarith
    then show ?thesis by (simp add: bitlength_pos bitlength_0)
  next
    case False
    then have pos: "0 < n div 2" by simp
    then have ih: "2 ^ (bitlength (n div 2) - 1) \<le> n div 2"
      using "1" by simp
    have "bitlength n - 1 = Suc (bitlength (n div 2) - 1)"
      using "1.prems" pos by (simp add: bitlength_pos)
    then have "(2::nat) ^ (bitlength n - 1) = 2 * 2 ^ (bitlength (n div 2) - 1)"
      by simp
    also have "\<dots> \<le> 2 * (n div 2)" using ih by simp
    also have "\<dots> \<le> n" by simp
    finally show ?thesis .
  qed
qed

lemma bitlength_le: "n < 2 ^ k \<Longrightarrow> bitlength n \<le> k"
proof (rule ccontr)
  assume a: "n < 2 ^ k" and b: "\<not> bitlength n \<le> k"
  then have pos: "0 < n" by (cases "n = 0") (simp_all add: bitlength_0)
  from b have "k \<le> bitlength n - 1" by simp
  then have "(2::nat) ^ k \<le> 2 ^ (bitlength n - 1)"
    by (rule power_increasing) simp
  also have "\<dots> \<le> n" using pos by (rule bitlength_ge)
  finally show False using a by simp
qed

lemma bitlength_eq: "2 ^ k \<le> n \<Longrightarrow> n < 2 ^ Suc k \<Longrightarrow> bitlength n = Suc k"
proof -
  assume lo: "2 ^ k \<le> n" and hi: "n < 2 ^ Suc k"
  have up: "bitlength n \<le> Suc k" using hi by (rule bitlength_le)
  have "\<not> bitlength n \<le> k"
  proof
    assume "bitlength n \<le> k"
    then have "(2::nat) ^ bitlength n \<le> 2 ^ k" by (rule power_increasing) simp
    then show False using bitlength_less [of n] lo by linarith
  qed
  then show ?thesis using up by simp
qed

lemma round_to_53_bits_upper: "round_to_53_bits p * 2 ^ 53 \<le> p * (2 ^ 53 + 1)"
proof (cases "bitlength p \<le> 53")
  case True
  then show ?thesis by (simp add: round_to_53_bits_def)
next
  case False
  define d where "d = bitlength p - 53"
  define q where "q = p div 2 ^ d"
  define r where "r = p mod 2 ^ d"
  define h where "h = (2::nat) ^ (d - 1)"
  have dpos: "0 < d" using False by (simp add: d_def)
  have two_h: "(2::nat) ^ d = 2 * h"
    using dpos by (cases d) (simp_all add: h_def)
  have p_eq: "p = q * 2 ^ d + r" unfolding q_def r_def by (rule div_mult_mod_eq [symmetric])
  have ppos: "0 < p" using False by (cases "p = 0") (simp_all add: bitlength_0)
  have "bitlength p - 1 = (d - 1) + 53" using False dpos by (simp add: d_def)
  then have "h * 2 ^ 53 = 2 ^ (bitlength p - 1)" by (simp add: h_def power_add)
  then have h_le: "h * 2 ^ 53 \<le> p" using bitlength_ge [OF ppos] by simp
  have res: "round_to_53_bits p = (if h < r \<or> (r = h \<and> odd q) then q + 1 else q) * 2 ^ d"
    using False by (simp add: round_to_53_bits_def Let_def d_def q_def r_def h_def)
  have "round_to_53_bits p \<le> p + h"
  proof (cases "h < r \<or> (r = h \<and> odd q)")
    case True
    then have "h \<le> r" by auto
    have "round_to_53_bits p = q * 2 ^ d + 2 ^ d" using True res by (simp add: algebra_simps)
    also have "\<dots> = q * 2 ^ d + 2 * h" using two_h by simp
    also have "\<dots> \<le> q * 2 ^ d + r + h" using \<open>h \<le> r\<close> by simp
    finally show ?thesis using p_eq by simp
  next
    case False
    then have "round_to_53_bits p = q * 2 ^ d" using res by simp
    then show ?thesis using p_eq by simp
  qed
  then have "round_to_53_bits p * 2 ^ 53 \<le> (p + h) * 2 ^ 53" by simp
  also have "\<dots> = p * 2 ^ 53 + h * 2 ^ 53" by (simp add: algebra_simps)
  also have "\<dots> \<le> p * 2 ^ 53 + p" using h_le by simp
  finally show ?thesis by (simp add: algebra_simps)
qed

lemma round_to_53_bits_grid:
  assumes "g \<le> p" and "2 ^ (bitlength p - 53) dvd g"
  shows "g \<le> round_to_53_bits p"
proof (cases "bitlength p \<le> 53")
  case True
  then show ?thesis using assms(1) by (simp add: round_to_53_bits_def)
next
  case False
  define d where "d = bitlength p - 53"
  define q where "q = p div 2 ^ d"
  obtain k where g: "g = 2 ^ d * k" using assms(2) by (auto simp: d_def dvd_def)
  have "k = g div 2 ^ d" using g by simp
  also have "\<dots> \<le> q" unfolding q_def using assms(1) by (rule div_le_mono)
  finally have "k \<le> q" .
  then have "g \<le> q * 2 ^ d" using g by (simp add: mult.commute)
  also have "\<dots> \<le> round_to_53_bits p"
    using False by (simp add: round_to_53_bits_def Let_def d_def q_def)
  finally show ?thesis .
qed

text \<open>
  Below \<open>2^52\<close> the rounded product decides the comparison as the exact product
  would: the rounding error is at most \<open>2^-53\<close> of the product, and a multiple of
  \<open>2^56\<close> below the product stays below its rounding.
\<close>

lemma exceeds_0_05_of_exact:
  assumes "n < 2 ^ 52"
  shows "exceeds_0_05_of e n \<longleftrightarrow> n < 20 * e"
proof
  assume ex: "exceeds_0_05_of e n"
  show "n < 20 * e"
  proof (rule ccontr)
    assume "\<not> n < 20 * e"
    then have le: "20 * e \<le> n" by simp
    let ?p = "n * 3602879701896397"
    have g_le: "e * 2 ^ 56 \<le> ?p" using le by simp
    have "?p < 2 ^ 104" using assms by simp
    then have "bitlength ?p \<le> 104" by (rule bitlength_le)
    then have "bitlength ?p - 53 \<le> 56" by simp
    then have "(2::nat) ^ (bitlength ?p - 53) dvd 2 ^ 56" by (rule le_imp_power_dvd)
    then have "(2::nat) ^ (bitlength ?p - 53) dvd e * 2 ^ 56" by (rule dvd_mult)
    with g_le have "e * 2 ^ 56 \<le> round_to_53_bits ?p" by (rule round_to_53_bits_grid)
    then show False using ex by (simp add: exceeds_0_05_of_def times_0_05_def)
  qed
next
  assume lt: "n < 20 * e"
  let ?p = "n * 3602879701896397"
  have up: "round_to_53_bits ?p * 2 ^ 53 \<le> ?p * (2 ^ 53 + 1)"
    by (rule round_to_53_bits_upper)
  have "round_to_53_bits ?p < e * 2 ^ 56"
  proof (rule ccontr)
    assume "\<not> round_to_53_bits ?p < e * 2 ^ 56"
    then have "e * 2 ^ 56 \<le> round_to_53_bits ?p" by simp
    then have "e * 2 ^ 56 * 2 ^ 53 \<le> round_to_53_bits ?p * 2 ^ 53" by simp
    with up have "e * 2 ^ 56 * 2 ^ 53 \<le> ?p * (2 ^ 53 + 1)" by linarith
    then show False using lt assms by simp
  qed
  then show "exceeds_0_05_of e n" by (simp add: exceeds_0_05_of_def times_0_05_def)
qed

lemma five_percent_nat: "(of_nat n * (5 / 100) < (of_nat e :: rat)) = (n < 20 * e)"
proof -
  have "(of_nat n * (5 / 100) < (of_nat e :: rat)) = ((of_nat n :: rat) < of_nat (20 * e))"
    by (simp add: field_simps)
  then show ?thesis by (simp only: of_nat_less_iff)
qed

text \<open>
  C8, as stated, fails for very large counts: with 7999999999999999 queries and
  400000000000000 errors the error count exceeds 5% of the total (399999999999999.95),
  but the double product \<open>total_queries * 0.05\<close> rounds up to 400000000000000 and the
  status is `healthy'.
\<close>

theorem project_status_rounding:
  "status (formatProject quadrillion_row) = healthy
   \<and> of_nat (total_queries quadrillion_row) * (5 / 100)
       < (of_nat (error_count quadrillion_row) :: rat)"
proof -
  have "bitlength (7999999999999999 * 3602879701896397) = Suc 104"
    by (rule bitlength_eq) simp_all
  then have "\<not> exceeds_0_05_of 400000000000000 7999999999999999"
    by (simp add: exceeds_0_05_of_def times_0_05_def round_to_53_bits_def Let_def)
  then show ?thesis
    by (simp add: formatProject_def quadrillion_row_def five_percent_nat)
qed

text \<open>
  C8, amended. For every project row whose total query count is below \<open>2^52\<close>
  (about \<open>4.5 * 10^15\<close>), the displayed status is `warning' exactly when the error
  count strictly exceeds 5% of the total query count, and `healthy' otherwise.
\<close>

theorem project_status_threshold:
  assumes "total_queries project < 2 ^ 52"
  shows "status (formatProject project) =
           (if of_nat (total_queries project) * (5 / 100) < (of_nat (error_count project) :: rat)
            then warning else healthy)"
  using exceeds_0_05_of_exact [OF assms, of "error_count project"]
  by (simp add: formatProject_def five_percent_nat)

theorem project_status_threshold_witness:
  "total_queries (sample_row 6) < 2 ^ 52
   \<and> status (formatProject (sample_row 6)) = warning
   \<and> total_queries (sample_row 5) < 2 ^ 52
   \<and> status (formatProject (sample_row 5)) = healthy"
  using project_status_threshold [of "sample_row 6"] project_status_threshold [of "sample_row 5"]
  by (simp add: sample_row_def)

section \<open>Aggregation\<close>

lemma foldl_add_record:
  "foldl add_record t rs =
     \<lparr> jobs = jobs t + length rs,
       slot_ms_sum = slot_ms_sum t + sum_list (map slot_milliseconds rs),
       bytes_sum = bytes_sum t + sum_list (map bytes_processed rs),
       errors = errors t + length (filter failed rs),
       cache_hits = cache_hits t + length (filter cache_hit rs) \<rparr>"
proof (induction rs arbitrary: t)
  case Nil
  show ?case by simp
next
  case (Cons r rs)
  have fields:
    "jobs (add_record t r) = Suc (jobs t)"
    "slot_ms_sum (add_record t r) = slot_ms_sum t + slot_milliseconds r"
    "bytes_sum (add_record t r) = bytes_sum t + bytes_processed r"
    "errors (add_record t r) = errors t + (if failed r then 1 else 0)"
    "cache_hits (add_record t r) = cache_hits t + (if cache_hit r then 1 else 0)"
    by (simp_all add: add_record_def failed_def)
  have "foldl add_record t (r # rs) = foldl add_record (add_record t r) rs"
    by simp
  also note Cons.IH [of "add_record t r"]
  finally show ?case
    by (simp add: fields)
qed

lemma rate_total: "rate a b = Inr (if b = 0 then 0 else of_nat a / of_nat b)"
  by (simp add: rate_def quotient_def)

lemma aggregate_result:
  "aggregate records w =
     Inr \<lparr> kpi_total_jobs = length records,
           kpi_total_slot_ms = sum_list (map slot_milliseconds records),
           kpi_total_bytes = sum_list (map bytes_processed records),
           kpi_error_count = length (filter failed records),
           kpi_error_rate =
             (if length records = 0 then 0
              else of_nat (length (filter failed records)) / of_nat (length records)),
           kpi_cache_hit_rate =
             (if length records = 0 then 0
              else of_nat (length (filter cache_hit records)) / of_nat (length records)) \<rparr>"
  by (simp add: aggregate_def Let_def foldl_add_record rate_total no_totals_def)

lemma sample_rows:
  "runAggregateQuery sample_warehouse (sample_scope ''us'') sample_window = Inr sample_jobs"
  by (simp add: runAggregateQuery_def sample_warehouse_def sample_scope_def sample_window_def
        sample_jobs_def in_scope_def job_def)

lemma no_rows:
  "runAggregateQuery empty_warehouse (sample_scope ''us'') sample_window = Inr []"
  by (simp add: runAggregateQuery_def empty_warehouse_def sample_window_def)

lemma runAggregateQuery_region:
  "wh' (scope_region sc) = wh (scope_region sc)
   \<Longrightarrow> runAggregateQuery wh' sc w = runAggregateQuery wh sc w"
  by (simp add: runAggregateQuery_def)

text \<open>
  C5. For every collection of records, \<open>aggregate\<close> returns a KPI set and never the
  division fault; its job total is the number of records, and when that total is zero
  the error rate and the cache-hit rate are zero.  For the empty collection every
  field is zero.  The view's own fallback, installed when the dashboard request fails,
  also reports zero jobs with an error percentage of zero.
\<close>

theorem aggregate_rates_never_fault:
  "(\<exists>k. aggregate records w = Inr k
        \<and> kpi_total_jobs k = length records
        \<and> (kpi_total_jobs k = 0 \<longrightarrow> kpi_error_rate k = 0 \<and> kpi_cache_hit_rate k = 0))
   \<and> aggregate records w \<noteq> Inl DivisionFault
   \<and> aggregate [] w = Inr zero_kpis
   \<and> dashboardData (fst (fetchDashboardData project region (Inl err) s))
       = Some fallback_dashboardData
   \<and> totalJobs_value (kpis fallback_dashboardData) = 0
   \<and> errors_percentage (kpis fallback_dashboardData) = 0"
  by (simp add: aggregate_result zero_kpis_def fetchDashboardData_def fallback_dashboardData_def)

theorem aggregate_rates_never_fault_witness:
  "aggregate [] sample_window = Inr zero_kpis
   \<and> kpi_total_jobs zero_kpis = 0
   \<and> kpi_error_rate zero_kpis = 0
   \<and> kpi_cache_hit_rate zero_kpis = 0"
  using aggregate_rates_never_fault [of "[]" sample_window]
  by (simp add: zero_kpis_def)

text \<open>
  C7. For every non-empty set of records that the gateway returns for a scope and
  window, the KPI set exists and its slot-millisecond and byte totals are the sums of
  the records' fields.  The KPI set is a function of window, scope and warehouse state,
  so equal inputs give equal results; moreover it depends on the warehouse state only
  through the job history of the scope's region.
\<close>

theorem kpi_totals_are_sums:
  assumes "runAggregateQuery wh sc w = Inr records" and "records \<noteq> []"
  shows "\<exists>k. kpiSet wh sc w = Inr k
           \<and> kpi_total_slot_ms k = sum_list (map slot_milliseconds records)
           \<and> kpi_total_bytes k = sum_list (map bytes_processed records)
           \<and> (\<forall>wh'. wh' (scope_region sc) = wh (scope_region sc)
                 \<longrightarrow> kpiSet wh' sc w = Inr k)"
proof -
  let ?k = "\<lparr> kpi_total_jobs = length records,
           kpi_total_slot_ms = sum_list (map slot_milliseconds records),
           kpi_total_bytes = sum_list (map bytes_processed records),
           kpi_error_count = length (filter failed records),
           kpi_error_rate =
             (if length records = 0 then 0
              else of_nat (length (filter failed records)) / of_nat (length records)),
           kpi_cache_hit_rate =
             (if length records = 0 then 0
              else of_nat (length (filter cache_hit records)) / of_nat (length records)) \<rparr>"
  have here: "kpiSet wh sc w = Inr ?k"
    using assms(1) by (simp add: kpiSet_def aggregate_result)
  have there: "kpiSet wh' sc w = Inr ?k" if "wh' (scope_region sc) = wh (scope_region sc)" for wh'
  proof -
    have "runAggregateQuery wh' sc w = Inr records"
      using runAggregateQuery_region [of wh' sc wh w] that assms(1) by simp
    then show ?thesis by (simp add: kpiSet_def aggregate_result)
  qed
  show ?thesis
    using here there by (intro exI [of _ ?k]) simp
qed

theorem kpi_totals_are_sums_witness:
  "runAggregateQuery sample_warehouse (sample_scope ''us'') sample_window = Inr sample_jobs
   \<and> sample_jobs \<noteq> []
   \<and> other_warehouse (scope_region (sample_scope ''us''))
       = sample_warehouse (scope_region (sample_scope ''us''))
   \<and> kpiSet sample_warehouse (sample_scope ''us'') sample_window = Inr sample_kpis
   \<and> kpi_total_slot_ms sample_kpis = 500 + 900 + 900
   \<and> kpi_total_bytes sample_kpis = 1000 + 2000 + 4000
   \<and> kpiSet other_warehouse (sample_scope ''us'') sample_window = Inr sample_kpis"
proof -
  have ne: "sample_jobs \<noteq> []" by (simp add: sample_jobs_def)
  have same: "other_warehouse (scope_region (sample_scope ''us''))
       = sample_warehouse (scope_region (sample_scope ''us''))"
    by (simp add: other_warehouse_def sample_scope_def)
  have here: "kpiSet sample_warehouse (sample_scope ''us'') sample_window = Inr sample_kpis"
    by (simp add: kpiSet_def sample_rows aggregate_result)
      (simp add: sample_kpis_def sample_jobs_def job_def failed_def)
  from kpi_totals_are_sums [OF sample_rows ne]
  obtain k where k: "kpiSet sample_warehouse (sample_scope ''us'') sample_window = Inr k"
      "\<forall>wh'. wh' (scope_region (sample_scope ''us''))
               = sample_warehouse (scope_region (sample_scope ''us''))
             \<longrightarrow> kpiSet wh' (sample_scope ''us'') sample_window = Inr k"
    by blast
  have "k = sample_kpis" using k(1) here by simp
  then have "kpiSet other_warehouse (sample_scope ''us'') sample_window = Inr sample_kpis"
    using k(2) same by blast
  moreover have "kpi_total_slot_ms sample_kpis = 500 + 900 + 900"
    "kpi_total_bytes sample_kpis = 1000 + 2000 + 4000"
    by (simp_all add: sample_kpis_def)
  ultimately show ?thesis using sample_rows ne same here by blast
qed

section \<open>Ranking\<close>

lemma costs_before_total: "costs_before a b \<or> costs_before b a"
  by (auto simp: costs_before_def)

lemma costs_before_trans: "costs_before a b \<Longrightarrow> costs_before b c \<Longrightarrow> costs_before a c"
  by (auto simp: costs_before_def)

lemma set_insert_by_cost: "set (insert_by_cost x xs) = insert x (set xs)"
  by (induction xs) (simp_all add: insert_commute)

lemma length_insert_by_cost: "length (insert_by_cost x xs) = Suc (length xs)"
  by (induction xs) simp_all

lemma sorted_insert_by_cost:
  "sorted_wrt costs_before xs \<Longrightarrow> sorted_wrt costs_before (insert_by_cost x xs)"
proof (induction xs)
  case Nil
  show ?case by simp
next
  case (Cons y ys)
  show ?case
  proof (cases "costs_before x y")
    case True
    then have "\<forall>z\<in>set ys. costs_before x z"
      using Cons.prems by (auto intro: costs_before_trans)
    then show ?thesis using True Cons.prems by simp
  next
    case False
    then have "costs_before y x" using costs_before_total by blast
    then show ?thesis using False Cons by (auto simp: set_insert_by_cost)
  qed
qed

lemma sorted_sort_by_cost: "sorted_wrt costs_before (sort_by_cost rs)"
  unfolding sort_by_cost_def by (induction rs) (simp_all add: sorted_insert_by_cost)

lemma length_sort_by_cost: "length (sort_by_cost rs) = length rs"
  unfolding sort_by_cost_def by (induction rs) (simp_all add: length_insert_by_cost)

lemma set_sort_by_cost: "set (sort_by_cost rs) = set rs"
  unfolding sort_by_cost_def by (induction rs) (simp_all add: set_insert_by_cost)

lemma ranked_assign_ranks: "map ranked (assign_ranks r xs) = xs"
  by (induction xs arbitrary: r) simp_all

lemma length_assign_ranks: "length (assign_ranks r xs) = length xs"
  by (induction xs arbitrary: r) simp_all

lemma rank_assign_ranks: "map rank (assign_ranks r xs) = [r..<r + length xs]"
proof (induction xs arbitrary: r)
  case Nil
  show ?case by simp
next
  case (Cons x xs)
  have "map rank (assign_ranks r (x # xs)) = r # map rank (assign_ranks (Suc r) xs)"
    by simp
  also have "\<dots> = r # [Suc r..<Suc r + length xs]"
    by (simp only: Cons.IH)
  also have "\<dots> = [r..<Suc r + length xs]"
    by (rule upt_conv_Cons [symmetric]) simp
  finally show ?case by simp
qed

lemma fst_renderRanks: "map fst (renderRanks qs) = [1..<1 + length qs]"
proof -
  have "map fst (renderRanks qs) = map (Suc \<circ> fst) (zip [0..<length qs] qs)"
    by (simp add: renderRanks_def case_prod_unfold comp_def)
  also have "\<dots> = map Suc (map fst (zip [0..<length qs] qs))"
    by (simp only: map_map)
  also have "\<dots> = map Suc [0..<length qs]" by simp
  also have "\<dots> = [1..<1 + length qs]" by (simp add: map_Suc_upt)
  finally show ?thesis .
qed

lemma sample_top:
  "take 10 (sort_by_cost sample_jobs)
     = [job ''j2'' ''analytics-1'' 10 900 2000 (Failure ''quota''),
        job ''j3'' ''analytics-1'' 20 900 4000 Success,
        job ''j1'' ''analytics-1'' 30 500 1000 Success]"
  by (simp add: sort_by_cost_def sample_jobs_def costs_before_def job_def)

text \<open>
  C1. For every scope and well-formed window, with \<open>matching\<close> the records in scope,
  \<open>topByCost\<close> returns a list in which every entry costs before every later one:
  more slot-milliseconds, or as many and submitted no later.  The rank of the entry
  at position \<open>i\<close> (from 0) is \<open>i + 1\<close>, which is also the rank the view shows for
  it.  The list has \<open>min n (length matching)\<close> entries, all of them records in scope:
  with fewer than \<open>n\<close> matching records it has exactly that many.
\<close>

theorem topByCost_ordered:
  assumes "runAggregateQuery wh sc w = Inr matching"
  shows "\<exists>out. topByCost wh sc w n = Inr out
           \<and> sorted_wrt costs_before (map ranked out)
           \<and> (\<forall>i<length out. rank (out ! i) = i + 1)
           \<and> length out = min n (length matching)
           \<and> (length matching < n \<longrightarrow> length out = length matching)
           \<and> set (map ranked out) \<subseteq> set matching
           \<and> map fst (renderRanks out) = map rank out"
proof -
  let ?top = "take n (sort_by_cost matching)"
  let ?out = "assign_ranks 1 ?top"
  have res: "topByCost wh sc w n = Inr ?out"
    using assms by (simp add: topByCost_def)
  have sorted: "sorted_wrt costs_before (map ranked ?out)"
    by (simp add: ranked_assign_ranks sorted_wrt_take sorted_sort_by_cost)
  have len: "length ?out = min n (length matching)"
    by (simp add: length_assign_ranks length_sort_by_cost min.commute)
  have ranks: "map rank ?out = [1..<1 + length ?out]"
    by (simp add: rank_assign_ranks length_assign_ranks)
  have nth_rank: "\<forall>i<length ?out. rank (?out ! i) = i + 1"
  proof (intro allI impI)
    fix i assume i: "i < length ?out"
    then have "rank (?out ! i) = map rank ?out ! i" by (rule nth_map [symmetric])
    also have "\<dots> = [1..<1 + length ?out] ! i" by (simp only: ranks)
    also have "\<dots> = 1 + i" using i by (intro nth_upt) simp
    finally show "rank (?out ! i) = i + 1" by simp
  qed
  have sub: "set (map ranked ?out) \<subseteq> set matching"
    using set_take_subset [of n "sort_by_cost matching"]
    by (simp add: ranked_assign_ranks set_sort_by_cost)
  have shown: "map fst (renderRanks ?out) = map rank ?out"
    by (simp only: fst_renderRanks ranks)
  have fewer: "length matching < n \<longrightarrow> length ?out = length matching"
    using len by simp
  show ?thesis
    using res sorted nth_rank len fewer sub shown by (intro exI [of _ ?out] conjI)
qed


theorem topByCost_ordered_witness:
  "runAggregateQuery sample_warehouse (sample_scope ''us'') sample_window = Inr sample_jobs
   \<and> length sample_jobs = 3
   \<and> topByCost sample_warehouse (sample_scope ''us'') sample_window 10 = Inr sample_ranking
   \<and> length sample_ranking = 3
   \<and> rank (sample_ranking ! 0) = 1
   \<and> rank (sample_ranking ! 2) = 3
   \<and> sorted_wrt costs_before (map ranked sample_ranking)"
proof -
  have three: "length sample_jobs = 3" by (simp add: sample_jobs_def)
  have top: "topByCost sample_warehouse (sample_scope ''us'') sample_window 10
       = Inr sample_ranking"
    by (simp add: topByCost_def sample_rows sample_top sample_ranking_def)
  from topByCost_ordered [OF sample_rows, of 10]
  obtain out where out:
      "topByCost sample_warehouse (sample_scope ''us'') sample_window 10 = Inr out"
      "sorted_wrt costs_before (map ranked out)"
      "\<forall>i<length out. rank (out ! i) = i + 1"
      "length sample_jobs < 10 \<longrightarrow> length out = length sample_jobs"
    by blast
  have eq: "out = sample_ranking" using out(1) top by simp
  have len: "length out = 3" using out(4) three by simp
  then have "rank (out ! 0) = 1" "rank (out ! 2) = 3" using out(3) by simp_all
  then show ?thesis using sample_rows three top out(2) len eq by blast
qed

section \<open>The overview of an empty scope\<close>

text \<open>
  C6. When the gateway returns no record for the scope and window, the
  organization overview is a response, not an error, with an empty project list,
  \<open>totalQueries = 0\<close> and \<open>totalErrors = 0\<close>; the view that receives it shows an
  empty project list with both totals zero and stops loading.  The view reaches the
  same state when the request fails.
\<close>

theorem overview_of_no_records:
  assumes "runAggregateQuery wh sc w = Inr []"
  shows "\<exists>resp. organization_overview bytes_per_tb wh sc w = Inr resp
           \<and> resp_projects resp = []
           \<and> totalQueries (resp_orgStats resp) = 0
           \<and> totalErrors (resp_orgStats resp) = 0
           \<and> projects (fst (fetchOrganizationData region (Inr resp) s)) = []
           \<and> totalQueries (orgStats (fst (fetchOrganizationData region (Inr resp) s))) = 0
           \<and> totalErrors (orgStats (fst (fetchOrganizationData region (Inr resp) s))) = 0
           \<and> loading (fst (fetchOrganizationData region (Inr resp) s)) = False
           \<and> fst (fetchOrganizationData region (Inl err) s)
               = \<lparr> projects = [], orgStats = empty_orgStats, loading = False \<rparr>"
  using assms
  by (simp add: organization_overview_def fetchOrganizationData_def Let_def)

theorem overview_of_no_records_witness:
  "runAggregateQuery empty_warehouse (sample_scope ''us'') sample_window = Inr []
   \<and> organization_overview (10 ^ 12) empty_warehouse (sample_scope ''us'') sample_window
       = Inr empty_overview
   \<and> resp_projects empty_overview = []
   \<and> totalQueries (resp_orgStats empty_overview) = 0
   \<and> totalErrors (resp_orgStats empty_overview) = 0
   \<and> projects (fst (fetchOrganizationData ''us'' (Inr empty_overview) initial_OrgState)) = []
   \<and> loading (fst (fetchOrganizationData ''us'' (Inr empty_overview) initial_OrgState)) = False"
proof -
  have ov: "organization_overview (10 ^ 12) empty_warehouse (sample_scope ''us'') sample_window
       = Inr empty_overview"
    by (simp add: organization_overview_def no_rows empty_overview_def empty_orgStats_def
          slot_hours_of_def terabytes_of_def)
  from overview_of_no_records [OF no_rows, of "10 ^ 12" "''us''" initial_OrgState network_error]
  obtain resp where resp:
      "organization_overview (10 ^ 12) empty_warehouse (sample_scope ''us'') sample_window
         = Inr resp"
      "resp_projects resp = []"
      "totalQueries (resp_orgStats resp) = 0"
      "totalErrors (resp_orgStats resp) = 0"
      "projects (fst (fetchOrganizationData ''us'' (Inr resp) initial_OrgState)) = []"
      "loading (fst (fetchOrganizationData ''us'' (Inr resp) initial_OrgState)) = False"
    by blast
  have "resp = empty_overview" using resp(1) ov by simp
  then show ?thesis using no_rows ov resp(2-6) by blast
qed

end
